theory Spec2Isabelle
  imports Complex_Main
begin

section \<open>Numbers, vectors and the outside world\<close>

text \<open>
  The engine is three JavaScript prototypes: \<open>Dust.Cloud\<close> (the pool of specks),
  \<open>Dust.Speck\<close> (one particle) and \<open>Dust.Breeze\<close> (a wind-like force field).
  A JavaScript Number is modelled as a \<^typ>\<open>real\<close>: rounding, infinities and NaN of
  IEEE arithmetic are outside the model.  Counters that the code only ever
  increments or decrements by one are \<^typ>\<open>int\<close>.

  Object literals \<open>{x: .., y: ..}\<close> and \<open>{x: .., y: .., z: ..}\<close> are records.
\<close>

record force2 =
  fx :: real
  fy :: real

record vec3 =
  vx :: real
  vy :: real
  vz :: real

text \<open>
  \<open>Math.random()\<close> and \<open>new Date().getTime()\<close> read the outside world.  The world is
  a stream of the random numbers still to be drawn and a stream of the clock readings
  (milliseconds) still to be returned; each call consumes the head of its stream.
\<close>

record world =
  rnd :: "nat \<Rightarrow> real"
  clock :: "nat \<Rightarrow> real"

definition Math_random :: "world \<Rightarrow> real \<times> world" where
  "Math_random w = (rnd w 0, w\<lparr>rnd := \<lambda>n. rnd w (Suc n)\<rparr>)"

definition getTime :: "world \<Rightarrow> real \<times> world" where
  "getTime w = (clock w 0, w\<lparr>clock := \<lambda>n. clock w (Suc n)\<rparr>)"

text \<open>\<open>Math.random()\<close> returns a number in \<open>[0, 1)\<close>.\<close>

definition rnd_ok :: "world \<Rightarrow> bool" where
  "rnd_ok w \<longleftrightarrow> (\<forall>n. 0 \<le> rnd w n \<and> rnd w n < 1)"

datatype error = TypeError

section \<open>Dust.Breeze: the force field\<close>

datatype breeze_type = Up | Down | Left | Right

datatype axis = X | Y

record viewPort =
  width :: real
  height :: real

text \<open>
  The fields of a breeze: \<open>attributes.type\<close>, \<open>attributes.power\<close>,
  \<open>attributes.musicFactor\<close>, \<open>attributes.waveSpreadMin\<close>, \<open>attributes.waveSpreadMax\<close>,
  \<open>direction\<close>, \<open>backPower\<close> and, of \<open>view\<close>, the two half extents that are read.
\<close>

record breeze =
  btype :: breeze_type
  bpower :: force2
  musicFactor :: real
  waveSpreadMin :: real
  waveSpreadMax :: real
  direction :: axis
  backPower :: force2
  halfW :: real
  halfH :: real

definition saveSize :: "viewPort \<Rightarrow> breeze \<Rightarrow> breeze" where
  "saveSize vp b = b\<lparr>halfW := width vp / 2, halfH := height vp / 2\<rparr>"

text \<open>
  \<open>initialize\<close> with the options the cloud passes, \<open>{type: t, size: vp}\<close>: the other
  attributes take the prototype's defaults, the direction is \<open>'x'\<close> for a horizontal
  type and the prototype's \<open>'y'\<close> otherwise.
\<close>

definition Breeze_initialize :: "breeze_type \<Rightarrow> viewPort \<Rightarrow> breeze" where
  "Breeze_initialize t vp =
     saveSize vp
       \<lparr>btype = t,
        bpower = \<lparr>fx = 10, fy = 30\<rparr>,
        musicFactor = 4,
        waveSpreadMin = 0.2,
        waveSpreadMax = 0.5,
        direction = (if t = Right \<or> t = Left then X else Y),
        backPower = \<lparr>fx = 0, fy = 0\<rparr>,
        halfW = 0,
        halfH = 0\<rparr>"

text \<open>
  The factor of \<open>setPower\<close>'s \<open>spread\<close>, for the random draw \<open>r\<close>:
  \<open>Math.random() * (waveSpreadMax - waveSpreadMin) + waveSpreadMin\<close>.
\<close>

definition spreadFraction :: "breeze \<Rightarrow> real \<Rightarrow> real" where
  "spreadFraction b r = r * (waveSpreadMax b - waveSpreadMin b) + waveSpreadMin b"

definition setPower :: "real \<Rightarrow> breeze \<Rightarrow> world \<Rightarrow> breeze \<times> world" where
  "setPower overall b w =
     (let force = overall * musicFactor b;
          (r, w1) = Math_random w;
          spread = force * spreadFraction b r;
          backForce = \<lparr>fx = (if direction b = X then force - spread else spread),
                       fy = (if direction b = Y then force - spread else spread)\<rparr>;
          pw = \<lparr>fx = (if direction b = X then force else 0),
                fy = (if direction b = Y then force else 0)\<rparr>
      in (b\<lparr>bpower := pw, backPower := backForce\<rparr>, w1))"

text \<open>The component of a two-axis object on an axis: \<open>v[axis]\<close>.\<close>

fun on_axis :: "force2 \<Rightarrow> axis \<Rightarrow> real" where
  "on_axis v X = fx v"
| "on_axis v Y = fy v"

fun other_axis :: "axis \<Rightarrow> axis" where
  "other_axis X = Y"
| "other_axis Y = X"

section \<open>Dust.Speck: one particle\<close>

text \<open>The constants of \<open>Dust.Speck.prototype.basics\<close> that the engine reads.\<close>

definition minLife :: real where "minLife = 3"
definition maxLife :: real where "maxLife = 5"
definition minDensity :: real where "minDensity = 0.2"
definition maxDensity :: real where "maxDensity = 1"
definition minWeight :: real where "minWeight = 0.5"
definition maxWeight :: real where "maxWeight = 5"
definition radiusScale :: real where "radiusScale = 10"
definition fallFactor :: real where "fallFactor = 700"
definition startInertiaFactor :: real where "startInertiaFactor = 10"
definition inertiaFallback :: real where "inertiaFallback = 0.5"
definition flashMaxAngle :: real where "flashMaxAngle = pi / 4"
definition flashMaxRotateAngle :: real where "flashMaxRotateAngle = pi / 8"
definition flashTime :: real where "flashTime = 0.4"
definition waveLag :: real where "waveLag = 0.45"
definition wavePrecision :: real where "wavePrecision = 1 / 60"

text \<open>The default attribute \<open>defaults.color\<close>.\<close>

definition defaultColor :: string where
  "defaultColor = ''#a74599''"

text \<open>An entry of the \<open>wave\<close> array: \<open>{time: .., power: ..}\<close>.\<close>

record wavePiece =
  time :: real
  wpower :: force2

text \<open>
  The argument of \<open>reset\<close>: an object that may carry \<open>position\<close>, \<open>inertia\<close> and
  \<open>color\<close>.  \<open>{}\<close> is the object with none of them.
\<close>

record speckOptions =
  position_o :: "vec3 option"
  inertia_o :: "vec3 option"
  color_o :: "string option"

definition emptyOptions :: speckOptions where
  "emptyOptions = \<lparr>position_o = None, inertia_o = None, color_o = None\<rparr>"

text \<open>
  A speck that has been reset.  \<open>position\<close>, \<open>color\<close>, \<open>colorSaturation\<close>,
  \<open>flashLifePart\<close>, \<open>life\<close>, \<open>lifeLeft\<close>, \<open>flashAngle\<close>, \<open>flashRotateAngle\<close>, \<open>wieght\<close>
  (the source's spelling), \<open>density\<close> and \<open>radius\<close> are the properties of
  \<open>this.attributes\<close>; a property that may be absent is an option.  The debug mode
  (\<open>inDebug\<close>, off unless \<open>debug(true)\<close> is called) only plots and is left out.
\<close>

record speck =
  position :: "vec3 option"
  color :: string
  colorSaturation :: "real option"
  flashLifePart :: "real option"
  life :: real
  lifeLeft :: real
  flashAngle :: real
  flashRotateAngle :: real
  wieght :: real
  density :: real
  radius :: real
  inertia :: vec3
  force :: vec3
  gravity :: real
  wave :: "wavePiece list"
  start :: real

definition isDead :: "speck \<Rightarrow> bool" where
  "isDead s \<longleftrightarrow> lifeLeft s \<le> 0"

definition shortenLife :: "speck \<Rightarrow> speck" where
  "shortenLife s = (if lifeLeft s > flashTime then s\<lparr>lifeLeft := flashTime\<rparr> else s)"


text \<open>
  \<open>generate\<close> draws life, flash angles, weight and density, in this order, and derives
  radius and gravity.  \<open>Math.pow(b, 1/3)\<close> is \<open>b powr (1/3)\<close> (the base is positive
  whenever the draws are in range).
\<close>

definition generate :: "speck \<Rightarrow> world \<Rightarrow> speck \<times> world" where
  "generate s w =
     (let (r1, w1) = Math_random w;
          lf = r1 * (maxLife - minLife) + minLife;
          (r2, w2) = Math_random w1;
          (r3, w3) = Math_random w2;
          (r4, w4) = Math_random w3;
          wg = r4 * (maxWeight - minWeight) + minWeight;
          (r5, w5) = Math_random w4;
          dn = r5 * (maxDensity - minDensity) + minDensity;
          g = fallFactor * dn
      in (s\<lparr>life := lf,
            lifeLeft := lf,
            flashAngle := r2 * flashMaxAngle,
            flashRotateAngle := r3 * flashMaxRotateAngle,
            wieght := wg,
            density := dn,
            radius := radiusScale * ((wg / dn) / (pi * 4 / 3)) powr (1 / 3),
            gravity := g,
            force := (force s)\<lparr>vy := g\<rparr>\<rparr>, w5))"

text \<open>
  \<open>reset(options)\<close> overwrites every property of the speck, so the model builds the
  new speck from the options alone.  It reads the clock once, draws three random
  numbers when no inertia is supplied, and deletes \<open>inertia\<close> from the caller's
  options object when it is: the options are returned as the call leaves them.
\<close>

definition reset :: "speckOptions \<Rightarrow> world \<Rightarrow> speck \<times> speckOptions \<times> world" where
  "reset options w =
     (let (t, w0) = getTime w;
          (inr, options1, w1) =
            (case inertia_o options of
               Some v \<Rightarrow> (v, options\<lparr>inertia_o := None\<rparr>, w0)
             | None \<Rightarrow>
                 (let (rx, wa) = Math_random w0;
                      (ry, wb) = Math_random wa;
                      (rz, wc) = Math_random wb
                  in (\<lparr>vx = startInertiaFactor * (rx - 1 / 2) * 2,
                       vy = startInertiaFactor * (ry - 1 / 2) * 2,
                       vz = startInertiaFactor * (rz - 1 / 2) * 2\<rparr>, options, wc)));
          s0 = \<lparr>position = position_o options1,
                color = (case color_o options1 of Some c \<Rightarrow> c | None \<Rightarrow> defaultColor),
                colorSaturation = None,
                flashLifePart = None,
                life = 0, lifeLeft = 0, flashAngle = 0, flashRotateAngle = 0,
                wieght = 0, density = 0, radius = 0,
                inertia = inr,
                force = \<lparr>vx = 0, vy = 0, vz = 0\<rparr>,
                gravity = 0,
                wave = [],
                start = t\<rparr>;
          (s1, w2) = generate s0 w1
      in (s1, options1, w2))"

text \<open>The inertia fallback of \<open>fly\<close> on one axis.\<close>

definition fallback :: "real \<Rightarrow> real \<Rightarrow> real" where
  "fallback dt v = (if v < 0 then - 1 else 1) * (\<bar>v\<bar> - \<bar>v * inertiaFallback * dt\<bar>)"

text \<open>
  \<open>fly(dt)\<close>.  The last three statements read \<open>this.attributes.position.x\<close>: when the
  speck was reset without a position the first of them throws a TypeError.  An
  exception ends the pass of the animation loop that made the call, so the model
  returns the error alone, without the changes made before the throw.
\<close>

definition fly :: "real \<Rightarrow> speck \<Rightarrow> error + speck" where
  "fly dt s =
     (let s1 = s\<lparr>lifeLeft := lifeLeft s - dt\<rparr>
      in if isDead s1 then Inr s1
         else
           (let s2 = (if lifeLeft s1 \<le> flashTime
                      then s1\<lparr>flashLifePart := Some (1 - lifeLeft s1 / flashTime)\<rparr>
                      else s1);
                f = (force s2)\<lparr>vy := vy (force s2) + gravity s2\<rparr>;
                i = \<lparr>vx = fallback dt (vx (inertia s2)) + vx f * dt,
                     vy = fallback dt (vy (inertia s2)) + vy f * dt,
                     vz = fallback dt (vz (inertia s2)) + vz f * dt\<rparr>;
                s3 = s2\<lparr>inertia := i, force := \<lparr>vx = 0, vy = 0, vz = 0\<rparr>\<rparr>
            in case position s3 of
                 None \<Rightarrow> Inl TypeError
               | Some p \<Rightarrow>
                   Inr (s3\<lparr>position := Some \<lparr>vx = vx p + vx i * dt,
                                              vy = vy p + vy i * dt,
                                              vz = vz p + vz i * dt\<rparr>\<rparr>)))"

text \<open>
  \<open>setForce(direct, back)\<close>: push the back wave, take the earliest entry into
  \<open>direct\<close> when it is due, store \<open>direct\<close> as the x and y of the force.
\<close>

definition setForce :: "force2 \<Rightarrow> force2 \<Rightarrow> speck \<Rightarrow> world \<Rightarrow> speck \<times> world" where
  "setForce direct backf s w =
     (let (t, w1) = getTime w;
          wv = wave s @ [\<lparr>time = t + waveLag * 1000, wpower = backf\<rparr>];
          (direct1, wv1) =
            (case wv of
               [] \<Rightarrow> (direct, wv)
             | p # rest \<Rightarrow>
                 if time p < t + wavePrecision * 1000
                 then (\<lparr>fx = fx direct + fx (wpower p), fy = fy direct + fy (wpower p)\<rparr>, rest)
                 else (direct, wv))
      in (s\<lparr>wave := wv1, force := (force s)\<lparr>vx := fx direct1, vy := fy direct1\<rparr>\<rparr>, w1))"

section \<open>Applying a breeze to a speck\<close>

text \<open>
  \<open>_findDistance\<close> returns \<open>null\<close> (here \<open>None\<close>) for an axis the breeze does not blow
  along, and reads \<open>speck.attributes.position\<close> otherwise.
\<close>

definition findDistance :: "breeze \<Rightarrow> axis \<Rightarrow> speck \<Rightarrow> error + real option" where
  "findDistance b ax s =
     (if ax = Y \<and> btype b = Up then
        (case position s of None \<Rightarrow> Inl TypeError
         | Some p \<Rightarrow> Inr (Some (halfH b - vy p)))
      else if ax = Y \<and> btype b = Down then
        (case position s of None \<Rightarrow> Inl TypeError
         | Some p \<Rightarrow> Inr (Some (halfH b + vy p)))
      else if ax = X \<and> btype b = Right then
        (case position s of None \<Rightarrow> Inl TypeError
         | Some p \<Rightarrow> Inr (Some (halfW b - vx p)))
      else if ax = X \<and> btype b = Left then
        (case position s of None \<Rightarrow> Inl TypeError
         | Some p \<Rightarrow> Inr (Some (halfW b + vx p)))
      else Inr None)"

text \<open>In a comparison or a division \<open>null\<close> counts as 0.\<close>

definition toNumber :: "real option \<Rightarrow> real" where
  "toNumber d = (case d of None \<Rightarrow> 0 | Some v \<Rightarrow> v)"

record axisPower =
  direct_p :: real
  back_p :: real

text \<open>The coefficient \<open>k\<close> of \<open>_findForce\<close> on the breeze's own axis.\<close>

definition coefficient :: "breeze \<Rightarrow> real \<Rightarrow> real \<Rightarrow> real" where
  "coefficient b distance full =
     (let k = (if distance < full then sqrt \<bar>distance / full - 1\<bar> else 1)
      in if btype b = Up \<or> btype b = Left then - k else k)"

definition findForce ::
  "breeze \<Rightarrow> axis \<Rightarrow> real option \<Rightarrow> real \<Rightarrow> world \<Rightarrow> axisPower \<times> world" where
  "findForce b ax distance0 full w =
     (let distance = (if toNumber distance0 < 0 then 0 else toNumber distance0)
      in if direction b = ax then
           (let k = coefficient b distance full
            in (\<lparr>direct_p = k * on_axis (bpower b) ax,
                 back_p = (if k < 0 then - 1 else 1) * k * on_axis (backPower b) ax\<rparr>, w))
         else
           (let (r, w1) = Math_random w
            in (\<lparr>direct_p = 0,
                 back_p = (if r < 0.5 then - 1 else 1) * on_axis (backPower b) ax\<rparr>, w1)))"

definition Breeze_apply :: "breeze \<Rightarrow> speck \<Rightarrow> world \<Rightarrow> error + speck \<times> world" where
  "Breeze_apply b s w =
     (case findDistance b X s of
        Inl e \<Rightarrow> Inl e
      | Inr dx \<Rightarrow>
          (let (x, w1) = findForce b X dx (halfW b * 2) w
           in case findDistance b Y s of
                Inl e \<Rightarrow> Inl e
              | Inr dy \<Rightarrow>
                  (let (y, w2) = findForce b Y dy (halfH b * 2) w1
                   in Inr (setForce \<lparr>fx = direct_p x, fy = direct_p y\<rparr>
                                    \<lparr>fx = back_p x, fy = back_p y\<rparr> s w2))))"

text \<open>The inner loop of \<open>_animate\<close>: every breeze of the cloud is applied in order.\<close>

fun applyBreezes :: "breeze list \<Rightarrow> speck \<Rightarrow> world \<Rightarrow> error + speck \<times> world" where
  "applyBreezes [] s w = Inr (s, w)"
| "applyBreezes (b # bs) s w =
     (case Breeze_apply b s w of
        Inl e \<Rightarrow> Inl e
      | Inr (s1, w1) \<Rightarrow> applyBreezes bs s1 w1)"


text \<open>A sequence of \<open>setForce\<close> calls on one speck, each with its direct and back force.\<close>

fun setForceMany :: "(force2 \<times> force2) list \<Rightarrow> speck \<Rightarrow> world \<Rightarrow> speck \<times> world" where
  "setForceMany [] s w = (s, w)"
| "setForceMany ((d, b) # cs) s w =
     (let (s1, w1) = setForce d b s w in setForceMany cs s1 w1)"

section \<open>reset and the caller's objects\<close>

text \<open>
  \<open>reset\<close> above passes vectors by value.  In the source the options object and the
  vectors it carries are objects on the heap, and \<open>reset\<close> both mutates the caller's
  options object and decides which vector objects the speck shares with it.  For
  that question the vector objects live in a store: a cell per address and the next
  free address; creating an object takes the next free address.
\<close>

record store =
  cells :: "nat \<Rightarrow> vec3"
  next_free :: nat

definition alloc :: "store \<Rightarrow> vec3 \<Rightarrow> nat \<times> store" where
  "alloc h v = (next_free h, h\<lparr>cells := (cells h)(next_free h := v),
                                next_free := Suc (next_free h)\<rparr>)"

text \<open>
  \<open>_extend({}, from)\<close> for a vector object \<open>from\<close>: a new object that gets the
  value of each axis of \<open>from\<close>.
\<close>

definition extend_new :: "store \<Rightarrow> nat \<Rightarrow> nat \<times> store" where
  "extend_new h a = alloc h \<lparr>vx = vx (cells h a), vy = vy (cells h a), vz = vz (cells h a)\<rparr>"

text \<open>The options object with its vectors by reference, and what it holds by value.\<close>

record optionsRef =
  position_r :: "nat option"
  inertia_r :: "nat option"
  color_r :: "string option"

definition optionsOf :: "store \<Rightarrow> optionsRef \<Rightarrow> speckOptions" where
  "optionsOf h opts =
     \<lparr>position_o = map_option (cells h) (position_r opts),
      inertia_o = map_option (cells h) (inertia_r opts),
      color_o = color_r opts\<rparr>"

text \<open>
  A speck with the addresses of its \<open>inertia\<close> and of its \<open>attributes.position\<close>, and
  the speck by value as the store shows it.
\<close>

record speckRef =
  inertia_at :: nat
  position_at :: "nat option"
  shown :: speck

text \<open>
  \<open>reset(options)\<close> on the store.  A supplied inertia is copied into a new object by
  \<open>_extend({}, options.inertia)\<close> and the property is deleted from the options
  object; without one the inertia is a new object literal.  The merge of the options
  into \<open>this.attributes\<close> copies the reference to the position object.
\<close>

definition resetRef ::
  "optionsRef \<Rightarrow> store \<Rightarrow> world \<Rightarrow> speckRef \<times> optionsRef \<times> store \<times> world" where
  "resetRef opts h w =
     (let (t, w0) = getTime w;
          (ia, opts1, h1, w1) =
            (case inertia_r opts of
               Some a \<Rightarrow> (let (ia, h1) = extend_new h a
                          in (ia, opts\<lparr>inertia_r := None\<rparr>, h1, w0))
             | None \<Rightarrow>
                 (let (rx, wa) = Math_random w0;
                      (ry, wb) = Math_random wa;
                      (rz, wc) = Math_random wb;
                      (ia, h1) = alloc h \<lparr>vx = startInertiaFactor * (rx - 1 / 2) * 2,
                                         vy = startInertiaFactor * (ry - 1 / 2) * 2,
                                         vz = startInertiaFactor * (rz - 1 / 2) * 2\<rparr>
                  in (ia, opts, h1, wc)));
          s0 = \<lparr>position = map_option (cells h1) (position_r opts1),
                color = (case color_r opts1 of Some c \<Rightarrow> c | None \<Rightarrow> defaultColor),
                colorSaturation = None,
                flashLifePart = None,
                life = 0, lifeLeft = 0, flashAngle = 0, flashRotateAngle = 0,
                wieght = 0, density = 0, radius = 0,
                inertia = cells h1 ia,
                force = \<lparr>vx = 0, vy = 0, vz = 0\<rparr>,
                gravity = 0,
                wave = [],
                start = t\<rparr>;
          (s1, w2) = generate s0 w1
      in (\<lparr>inertia_at = ia, position_at = position_r opts1, shown = s1\<rparr>, opts1, h1, w2))"

section \<open>Dust.Cloud: the pool of specks\<close>

text \<open>
  An entry of \<open>this.throw\<close>: the colour, the inertia factor and the side specks are
  thrown from.  \<open>generateThrowDirection\<close> recognises the sides \<open>'bottom'\<close>,
  \<open>'low-sides'\<close> and \<open>'up-sides'\<close>; the default configuration uses no other.
\<close>

datatype throwFrom = Bottom | LowSides | UpSides

record throwParams =
  tcolor :: string
  inertiaFactor :: real
  from_side :: throwFrom

text \<open>
  An element of the array \<open>this.specks\<close>: \<open>undefined\<close> (also what a read outside the
  array gives), a speck that \<open>new Dust.Speck()\<close> created and nothing has reset yet,
  or a speck that has been reset.  A speck never reset still shares the prototype's
  empty \<open>attributes\<close>: its \<open>isDead()\<close> is false, its \<open>shortenLife()\<close> changes nothing,
  and \<open>fly\<close>, \<open>setForce\<close> and a breeze's \<open>apply\<close> throw on it.
\<close>

datatype slot = Undefined | Blank | Live speck

text \<open>
  The cloud: the options that the engine reads (\<open>poolSize\<close>, \<open>specks\<close>, \<open>throwRate\<close>,
  \<open>maxLag\<close>, \<open>maxToDelete\<close>), the view-port, and the mutable state.  The two sizes
  are counts; \<open>activeSpecks\<close> is the number the code adds to and subtracts from.
  The arrays \<open>specks\<close> and \<open>breezes\<close> are properties of the prototype, shared by all
  clouds; the model is of the one cloud that the page creates.  The specks of the
  pool are distinct objects, so a list of values stands for the array.
\<close>

record cloud =
  poolSize :: nat
  startSpecks :: nat
  throwRate :: real
  maxLag :: real
  maxToDelete :: real
  viewPortSize :: viewPort
  activeSpecks :: int
  specks :: "slot list"
  breezes :: "breeze list"
  throw :: "string \<rightharpoonup> throwParams"

text \<open>Reading and writing a JavaScript array: a read out of range is \<open>undefined\<close>,
  a write past the end extends the array with holes.\<close>

definition js_get :: "slot list \<Rightarrow> int \<Rightarrow> slot" where
  "js_get xs k = (if 0 \<le> k \<and> k < int (length xs) then xs ! nat k else Undefined)"

definition js_get_num :: "slot list \<Rightarrow> real \<Rightarrow> slot" where
  "js_get_num xs r = (if r = of_int \<lfloor>r\<rfloor> then js_get xs \<lfloor>r\<rfloor> else Undefined)"

definition js_set :: "slot list \<Rightarrow> nat \<Rightarrow> slot \<Rightarrow> slot list" where
  "js_set xs n v =
     (if n < length xs then xs[n := v]
      else xs @ replicate (n - length xs) Undefined @ [v])"

definition gaussSimplified :: "real \<Rightarrow> real" where
  "gaussSimplified x = \<bar>exp (- (x * x) / (2 * 0.2)) / (0.44 * sqrt (2 * pi)) - 0.9\<bar>"

text \<open>\<open>(Math.random() < 0.5 ? -1 : +1)\<close> for the draw \<open>r\<close>.\<close>

definition randomSign :: "real \<Rightarrow> real" where
  "randomSign r = (if r < 0.5 then - 1 else 1)"


text \<open>
  \<open>generateThrowDirection(type)\<close>.  The spread is drawn before the table is looked up;
  an unknown type returns \<open>{}\<close>.
\<close>

definition generateThrowDirection :: "string \<Rightarrow> cloud \<Rightarrow> world \<Rightarrow> speckOptions \<times> world" where
  "generateThrowDirection type c w =
     (let maxX = width (viewPortSize c);
          maxY = height (viewPortSize c);
          maxZ = width (viewPortSize c);
          (r0, w0) = Math_random w;
          spread = 0.3 * r0 + 0.2
      in case throw c type of
           None \<Rightarrow> (emptyOptions, w0)
         | Some params \<Rightarrow>
             (let (random, w1) = Math_random w0;
                  pz = maxZ / 2 * gaussSimplified random;
                  (r2, w2) = Math_random w1;
                  (r3, w3) = Math_random w2;
                  (pos, inr) =
                    (case from_side params of
                       Bottom \<Rightarrow>
                         (let iy = - maxY / 2 * inertiaFactor params
                          in (\<lparr>vx = maxX * randomSign r2 * gaussSimplified random,
                               vy = maxY / 2, vz = pz\<rparr>,
                              \<lparr>vx = randomSign r3 * iy * spread, vy = iy, vz = 0\<rparr>))
                     | LowSides \<Rightarrow>
                         (let px = randomSign r2 * maxX / 2;
                              ix = (if px < 0 then 1 else - 1) * maxX / 2 * inertiaFactor params
                          in (\<lparr>vx = px, vy = maxY / 2 * gaussSimplified random, vz = pz\<rparr>,
                              \<lparr>vx = ix, vy = randomSign r3 * ix * spread, vz = 0\<rparr>))
                     | UpSides \<Rightarrow>
                         (let px = randomSign r2 * maxX / 2;
                              ix = (if px < 0 then 1 else - 1) * maxX / 2 * inertiaFactor params
                          in (\<lparr>vx = px, vy = - maxY / 2 * gaussSimplified random, vz = pz\<rparr>,
                              \<lparr>vx = ix, vy = randomSign r3 * ix * spread, vz = 0\<rparr>)))
              in (\<lparr>position_o = Some pos, inertia_o = Some inr,
                   color_o = Some (tcolor params)\<rparr>, w3)))"

text \<open>
  One round of the loop of \<open>throwSpecks\<close>: the speck that
  \<open>speck.reset(this.generateThrowDirection(type))\<close> makes, and the world it leaves.
\<close>

definition throwOne :: "string \<Rightarrow> cloud \<Rightarrow> world \<Rightarrow> speck \<times> world" where
  "throwOne type c w =
     (let (data, w1) = generateThrowDirection type c w;
          (s, data1, w2) = reset data w1
      in (s, w2))"

text \<open>
  The loop of \<open>throwSpecks\<close>, from the counter \<open>i\<close> on: it stops when \<open>i < num\<close> fails
  or when \<open>this.specks[this.activeSpecks + i]\<close> is \<open>undefined\<close>, and returns the
  final counter.
\<close>

function throwLoop ::
  "string \<Rightarrow> real \<Rightarrow> nat \<Rightarrow> cloud \<Rightarrow> world \<Rightarrow> nat \<times> cloud \<times> world" where
  "throwLoop type num i c w =
     (if real i < num then
        (case js_get (specks c) (activeSpecks c + int i) of
           Undefined \<Rightarrow> (i, c, w)
         | _ \<Rightarrow>
             (let (data, w1) = generateThrowDirection type c w;
                  (s, data1, w2) = reset data w1
              in throwLoop type num (Suc i)
                   (c\<lparr>specks := (specks c)[nat (activeSpecks c + int i) := Live s]\<rparr>) w2))
      else (i, c, w))"
  by pat_completeness auto
termination
  by (relation "measure (\<lambda>(type, num, i, c, w). nat \<lceil>num\<rceil> - i)") (auto, linarith+)

declare throwLoop.simps [simp del]

definition throwSpecks :: "string \<Rightarrow> real \<Rightarrow> cloud \<Rightarrow> world \<Rightarrow> cloud \<times> world" where
  "throwSpecks type rate c w =
     (let num = rate * throwRate c;
          (i, c1, w1) = throwLoop type num 0 c w
      in (c1\<lparr>activeSpecks := activeSpecks c1 + int i\<rparr>, w1))"





text \<open>
  \<open>_deleteSpecks(num)\<close>: the loop runs while \<open>i < num\<close>; its body tests and shortens
  \<open>this.specks[num]\<close>.
\<close>

function deleteLoop :: "real \<Rightarrow> nat \<Rightarrow> slot list \<Rightarrow> slot list" where
  "deleteLoop num i xs =
     (if real i < num then
        (case js_get_num xs num of
           Undefined \<Rightarrow> xs
         | Blank \<Rightarrow> deleteLoop num (Suc i) xs
         | Live s \<Rightarrow> deleteLoop num (Suc i) (xs[nat \<lfloor>num\<rfloor> := Live (shortenLife s)]))
      else xs)"
  by pat_completeness auto
termination
  by (relation "measure (\<lambda>(num, i, xs). nat \<lceil>num\<rceil> - i)") (auto, linarith+)

declare deleteLoop.simps [simp del]

definition deleteSpecks :: "real \<Rightarrow> cloud \<Rightarrow> cloud" where
  "deleteSpecks num c = c\<lparr>specks := deleteLoop num 0 (specks c)\<rparr>"

text \<open>
  The number \<open>_animate\<close> passes to \<open>_deleteSpecks\<close>.  With \<open>maxLag = 0\<close> the quotient
  is infinite or not a number: for a positive \<open>dt\<close> and a positive count the clamp
  applies, and in every other case the loop of \<open>_deleteSpecks\<close> does not run, as for 0.
\<close>

definition numToDelete :: "real \<Rightarrow> cloud \<Rightarrow> real" where
  "numToDelete dt c =
     (let a = real_of_int (activeSpecks c)
      in if maxLag c = 0 then (if 0 < dt \<and> 0 < a then a * maxToDelete c else 0)
         else
           (let n = a * ((dt - maxLag c) / maxLag c)
            in if n > a * maxToDelete c then a * maxToDelete c else n))"

definition shedLoad :: "real \<Rightarrow> cloud \<Rightarrow> cloud" where
  "shedLoad dt c = (if dt \<ge> maxLag c then deleteSpecks (numToDelete dt c) c else c)"

text \<open>
  The loop of \<open>_animate\<close> over the active specks, from the index \<open>i\<close> on.  A dead speck
  is swapped with the last active one, \<open>activeSpecks\<close> is decremented, and \<open>i--\<close>
  followed by the loop's \<open>i++\<close> leaves the index where it is.
\<close>

function animateLoop :: "real \<Rightarrow> nat \<Rightarrow> cloud \<Rightarrow> world \<Rightarrow> error + cloud \<times> world" where
  "animateLoop dt i c w =
     (if int i < activeSpecks c then
        (case js_get (specks c) (int i) of
           Live s \<Rightarrow>
             (case applyBreezes (breezes c) s w of
                Inl e \<Rightarrow> Inl e
              | Inr (s1, w1) \<Rightarrow>
                  (case fly dt s1 of
                     Inl e \<Rightarrow> Inl e
                   | Inr s2 \<Rightarrow>
                       (let xs1 = (specks c)[i := Live s2]
                        in if isDead s2 then
                             (let xs2 = js_set xs1 i (js_get xs1 (activeSpecks c - 1));
                                  xs3 = js_set xs2 (nat (activeSpecks c - 1)) (Live s2)
                              in animateLoop dt i
                                   (c\<lparr>specks := xs3, activeSpecks := activeSpecks c - 1\<rparr>) w1)
                           else animateLoop dt (Suc i) (c\<lparr>specks := xs1\<rparr>) w1)))
         | _ \<Rightarrow> Inl TypeError)
      else Inr (c, w))"
  by pat_completeness auto
termination
  by (relation "measure (\<lambda>(dt, i, c, w). nat (activeSpecks c - int i))") auto

declare animateLoop.simps [simp del]

text \<open>
  One pass of \<open>_animate\<close> for the measured \<open>dt\<close>: load shedding, then the loop.  The
  calls into the music component before it and into the renderer after it are not
  part of the pass; what the music handlers do to the cloud (\<open>throwSpecks\<close>,
  \<open>setPower\<close>, \<open>color\<close>) are operations of their own.
\<close>

definition animate :: "real \<Rightarrow> cloud \<Rightarrow> world \<Rightarrow> error + cloud \<times> world" where
  "animate dt c w = animateLoop dt 0 (shedLoad dt c) w"



section \<open>The shape of the pool\<close>

text \<open>
  A slot of the active range holds a speck that has been reset and is not dead; a
  slot of the rest is inert and can be reused: it holds a speck never reset, or a
  dead one.
\<close>

definition alive_slot :: "slot \<Rightarrow> bool" where
  "alive_slot x = (case x of Live s \<Rightarrow> \<not> isDead s | Blank \<Rightarrow> False | Undefined \<Rightarrow> False)"

definition inert_slot :: "slot \<Rightarrow> bool" where
  "inert_slot x = (case x of Live s \<Rightarrow> isDead s | Blank \<Rightarrow> True | Undefined \<Rightarrow> False)"

definition pool_ok :: "cloud \<Rightarrow> bool" where
  "pool_ok c \<longleftrightarrow>
     0 \<le> activeSpecks c \<and> activeSpecks c \<le> int (poolSize c)
     \<and> length (specks c) = poolSize c
     \<and> list_all alive_slot (take (nat (activeSpecks c)) (specks c))
     \<and> list_all inert_slot (drop (nat (activeSpecks c)) (specks c))"


section \<open>Fixtures for the examples\<close>

text \<open>
  A world whose clock stands at \<open>t\<close> and whose random draws are all \<open>r\<close>; a world
  whose clock reads 0 twice and 1000 from then on; the speck that \<open>reset\<close> makes from a
  position alone; the breeze of scenario B.
\<close>

definition stillWorld :: "real \<Rightarrow> real \<Rightarrow> world" where
  "stillWorld r t = \<lparr>rnd = \<lambda>n. r, clock = \<lambda>n. t\<rparr>"

definition lateWorld :: world where
  "lateWorld = \<lparr>rnd = \<lambda>n. 1 / 2, clock = \<lambda>n. if n < 2 then 0 else 1000\<rparr>"

definition speckAt :: "vec3 \<Rightarrow> speck" where
  "speckAt p = fst (reset \<lparr>position_o = Some p, inertia_o = None, color_o = None\<rparr>
                      (stillWorld (1 / 2) 0))"


text \<open>
  The table \<open>this.throw\<close> that \<open>initialize\<close> builds from the default options; the
  default cloud on a view-port of 800 by 600 as \<open>fill\<close> leaves it for a pool of \<open>n\<close>
  specks and no starter speck; and the same cloud with every speck of the pool
  active, each the speck made at the origin.
\<close>

definition defaultThrow :: "string \<rightharpoonup> throwParams" where
  "defaultThrow =
     [''bitBass'' \<mapsto> \<lparr>tcolor = ''#b725a3'', inertiaFactor = 0.3, from_side = Bottom\<rparr>,
      ''middleLow'' \<mapsto> \<lparr>tcolor = ''#ffa11b'', inertiaFactor = 0.5, from_side = LowSides\<rparr>,
      ''middleMed'' \<mapsto> \<lparr>tcolor = ''#63eec2'', inertiaFactor = 0.5, from_side = LowSides\<rparr>,
      ''middleHigh'' \<mapsto> \<lparr>tcolor = ''#e3ee63'', inertiaFactor = 0.5, from_side = UpSides\<rparr>]"

definition emptyPool :: "nat \<Rightarrow> cloud" where
  "emptyPool n =
     \<lparr>poolSize = n, startSpecks = 0, throwRate = 1, maxLag = 0.03, maxToDelete = 0.05,
      viewPortSize = \<lparr>width = 800, height = 600\<rparr>, activeSpecks = 0,
      specks = replicate n Blank,
      breezes = [Breeze_initialize Up \<lparr>width = 800, height = 600\<rparr>],
      throw = defaultThrow\<rparr>"

definition crowdedPool :: "nat \<Rightarrow> cloud" where
  "crowdedPool n =
     (emptyPool n)\<lparr>activeSpecks := int n,
                   specks := replicate n (Live (speckAt \<lparr>vx = 0, vy = 0, vz = 0\<rparr>))\<rparr>"

text \<open>A store with one vector object, \<open>(1, 2, 3)\<close> at address 0.\<close>

definition oneVector :: store where
  "oneVector = \<lparr>cells = (\<lambda>a. \<lparr>vx = 0, vy = 0, vz = 0\<rparr>)(0 := \<lparr>vx = 1, vy = 2, vz = 3\<rparr>),
                next_free = 1\<rparr>"

section \<open>Facts about the fixtures\<close>

lemma speckAt_simps:
  "position (speckAt p) = Some p" "lifeLeft (speckAt p) = 4" "life (speckAt p) = 4"
  "wave (speckAt p) = []" "force (speckAt p) = \<lparr>vx = 0, vy = 420, vz = 0\<rparr>"
  "inertia (speckAt p) = \<lparr>vx = 0, vy = 0, vz = 0\<rparr>" "gravity (speckAt p) = 420"
  by (simp_all add: speckAt_def reset_def generate_def stillWorld_def Math_random_def getTime_def
       Let_def minLife_def maxLife_def fallFactor_def maxDensity_def minDensity_def
       startInertiaFactor_def)

section \<open>Properties of setPower\<close>

text \<open>
  C4, as the specification states it: the primary-axis power is the remainder
  \<open>force - spread\<close>.  It is not: at magnitude 1 with the default music factor 4 and a
  random draw of 0 the spread is \<open>4 * 0.2\<close>, the remainder is \<open>3.2\<close>, and the power on
  the primary axis of an "up" breeze is the whole force 4.
\<close>

theorem setPower_primary_power_not_remainder:
  "on_axis (bpower (fst (setPower 1 (Breeze_initialize Up \<lparr>width = 800, height = 600\<rparr>)
                          (stillWorld 0 0)))) Y = 4
   \<and> 4 \<noteq> 1 * musicFactor (Breeze_initialize Up \<lparr>width = 800, height = 600\<rparr>)
       - 1 * musicFactor (Breeze_initialize Up \<lparr>width = 800, height = 600\<rparr>)
           * spreadFraction (Breeze_initialize Up \<lparr>width = 800, height = 600\<rparr>) 0"
  by (simp add: setPower_def Breeze_initialize_def saveSize_def Math_random_def
        spreadFraction_def stillWorld_def)

text \<open>
  C4, amended: with \<open>force = m * musicFactor\<close> and one random draw \<open>r\<close>, the spread is
  \<open>force\<close> times a fraction \<open>r * (max - min) + min\<close> that lies in
  \<open>[waveSpreadMin, waveSpreadMax]\<close>; the power on the primary axis is the whole
  force and on the orthogonal axis zero; the back-power on the primary axis is the
  remainder \<open>force - spread\<close> and on the orthogonal axis the spread.  Exactly one
  random number is consumed.
\<close>

theorem setPower_split:
  assumes "0 \<le> m"
    and "0 \<le> rnd w 0" and "rnd w 0 < 1"
    and "waveSpreadMin b \<le> waveSpreadMax b"
  shows "waveSpreadMin b \<le> spreadFraction b (rnd w 0)
       \<and> spreadFraction b (rnd w 0) \<le> waveSpreadMax b
       \<and> on_axis (bpower (fst (setPower m b w))) (direction b) = m * musicFactor b
       \<and> on_axis (bpower (fst (setPower m b w))) (other_axis (direction b)) = 0
       \<and> on_axis (backPower (fst (setPower m b w))) (direction b)
           = m * musicFactor b - m * musicFactor b * spreadFraction b (rnd w 0)
       \<and> on_axis (backPower (fst (setPower m b w))) (other_axis (direction b))
           = m * musicFactor b * spreadFraction b (rnd w 0)
       \<and> rnd (snd (setPower m b w)) = (\<lambda>n. rnd w (Suc n))"
proof -
  have lo: "waveSpreadMin b \<le> spreadFraction b (rnd w 0)"
    using assms(2,4) by (simp add: spreadFraction_def)
  have "rnd w 0 * (waveSpreadMax b - waveSpreadMin b) \<le> 1 * (waveSpreadMax b - waveSpreadMin b)"
    using assms(3,4) by (intro mult_right_mono) simp_all
  then have hi: "spreadFraction b (rnd w 0) \<le> waveSpreadMax b"
    by (simp add: spreadFraction_def)
  have rest: "on_axis (bpower (fst (setPower m b w))) (direction b) = m * musicFactor b
       \<and> on_axis (bpower (fst (setPower m b w))) (other_axis (direction b)) = 0
       \<and> on_axis (backPower (fst (setPower m b w))) (direction b)
           = m * musicFactor b - m * musicFactor b * spreadFraction b (rnd w 0)
       \<and> on_axis (backPower (fst (setPower m b w))) (other_axis (direction b))
           = m * musicFactor b * spreadFraction b (rnd w 0)
       \<and> rnd (snd (setPower m b w)) = (\<lambda>n. rnd w (Suc n))"
    by (cases "direction b") (simp_all add: setPower_def Math_random_def Let_def)
  from lo hi rest show ?thesis by blast
qed

theorem setPower_split_witness:
  "on_axis (bpower (fst (setPower 25 (Breeze_initialize Up \<lparr>width = 800, height = 600\<rparr>)
                           (stillWorld (1/2) 0)))) Y = 100
   \<and> on_axis (bpower (fst (setPower 25 (Breeze_initialize Up \<lparr>width = 800, height = 600\<rparr>)
                           (stillWorld (1/2) 0)))) X = 0
   \<and> on_axis (backPower (fst (setPower 25 (Breeze_initialize Up \<lparr>width = 800, height = 600\<rparr>)
                           (stillWorld (1/2) 0)))) Y = 65
   \<and> on_axis (backPower (fst (setPower 25 (Breeze_initialize Up \<lparr>width = 800, height = 600\<rparr>)
                           (stillWorld (1/2) 0)))) X = 35"
proof -
  let ?b = "Breeze_initialize Up \<lparr>width = 800, height = 600\<rparr>"
  let ?w = "(stillWorld (1/2) 0)"
  have h1: "(0::real) \<le> 25" by simp
  have h2: "0 \<le> rnd ?w 0" and h3: "rnd ?w 0 < 1" by (simp_all add: stillWorld_def)
  have h4: "waveSpreadMin ?b \<le> waveSpreadMax ?b"
    by (simp add: Breeze_initialize_def saveSize_def)
  have d: "direction ?b = Y" and mf: "musicFactor ?b = 4"
    and fr: "spreadFraction ?b (rnd ?w 0) = 7/20"
    by (simp_all add: Breeze_initialize_def saveSize_def spreadFraction_def stillWorld_def)
  show ?thesis
    using setPower_split [OF h1 h2 h3 h4] unfolding d mf fr by simp
qed

section \<open>Properties of a breeze's apply\<close>



section \<open>Properties of setForce\<close>

lemma setForce_fresh_queue:
  "wave s = [] \<Longrightarrow>
     wave (fst (setForce d b s w)) = [\<lparr>time = clock w 0 + waveLag * 1000, wpower = b\<rparr>]
     \<and> vx (force (fst (setForce d b s w))) = fx d
     \<and> vy (force (fst (setForce d b s w))) = fy d"
  by (simp add: setForce_def getTime_def waveLag_def wavePrecision_def)

text \<open>
  C7, as the specification states it: of two \<open>setForce\<close> calls with no time advancing
  between them, the second leaves the force equal to its own direct vector.  Not for
  every speck: take the speck made by \<open>reset\<close>, call \<open>setForce\<close> twice at time 0 and
  twice at time 1000, each time with the direct force \<open>(1, 2)\<close> and the back force
  \<open>(3, 4)\<close>.  At time 1000 both waves of time 0 are due; the third call takes the
  first, the fourth call takes the second, and the force after the fourth call is
  \<open>(4, 6)\<close>, not \<open>(1, 2)\<close>.
\<close>

theorem setForce_second_call_takes_due_wave:
  "clock lateWorld 2 = clock lateWorld 3
   \<and> force (fst (setForceMany
                   [(\<lparr>fx = 1, fy = 2\<rparr>, \<lparr>fx = 3, fy = 4\<rparr>), (\<lparr>fx = 1, fy = 2\<rparr>, \<lparr>fx = 3, fy = 4\<rparr>),
                    (\<lparr>fx = 1, fy = 2\<rparr>, \<lparr>fx = 3, fy = 4\<rparr>), (\<lparr>fx = 1, fy = 2\<rparr>, \<lparr>fx = 3, fy = 4\<rparr>)]
                   (speckAt \<lparr>vx = 0, vy = 0, vz = 0\<rparr>) lateWorld))
       = \<lparr>vx = 4, vy = 6, vz = 0\<rparr>"
  by (simp add: setForce_def getTime_def lateWorld_def speckAt_simps waveLag_def
        wavePrecision_def)

text \<open>
  C7, amended.  \<open>setForce(direct, back)\<close> at clock reading \<open>t\<close> pushes the entry
  \<open>{time: t + waveLag * 1000, power: back}\<close>; when the earliest entry of the queue is due
  (\<open>time < t + wavePrecision * 1000\<close>) it is removed and its power added to \<open>direct\<close>,
  otherwise the queue keeps every entry; the x and y of the force become the
  resulting direct vector and the z of the force is untouched.  When a second call
  reads the same clock value and no entry of the original queue other than its
  earliest is due (in particular when the queue is empty, as after \<open>reset\<close>), the
  second call leaves the x and y of the force equal to its own direct vector and
  the first call's entry still in the queue, followed by the second call's.
\<close>

theorem setForce_wave_queue:
  "(let t = clock w 0;
        q = wave s @ [\<lparr>time = t + waveLag * 1000, wpower = b1\<rparr>];
        s1 = fst (setForce d1 b1 s w)
    in (if time (hd q) < t + wavePrecision * 1000
        then wave s1 = tl q
             \<and> vx (force s1) = fx d1 + fx (wpower (hd q))
             \<and> vy (force s1) = fy d1 + fy (wpower (hd q))
        else wave s1 = q \<and> vx (force s1) = fx d1 \<and> vy (force s1) = fy d1)
       \<and> vz (force s1) = vz (force s)
       \<and> clock (snd (setForce d1 b1 s w)) = (\<lambda>n. clock w (Suc n))
       \<and> (clock w 1 = t \<and> (\<forall>p \<in> set (tl (wave s)). \<not> time p < t + wavePrecision * 1000)
            \<longrightarrow> (let s2 = fst (setForce d2 b2 s1 (snd (setForce d1 b1 s w)))
                 in vx (force s2) = fx d2 \<and> vy (force s2) = fy d2
                    \<and> wave s2 = wave s1 @ [\<lparr>time = t + waveLag * 1000, wpower = b2\<rparr>]
                    \<and> last (wave s1) = \<lparr>time = t + waveLag * 1000, wpower = b1\<rparr>)))"
proof (cases "wave s")
  case Nil
  then show ?thesis
    by (simp add: setForce_def getTime_def Let_def waveLag_def wavePrecision_def)
next
  case (Cons h rest)
  show ?thesis
  proof (cases rest)
    case Nil
    with Cons show ?thesis
      by (simp add: setForce_def getTime_def Let_def waveLag_def wavePrecision_def)
  next
    case (Cons h2 rest2)
    with \<open>wave s = h # rest\<close> show ?thesis
      by (simp add: setForce_def getTime_def Let_def waveLag_def wavePrecision_def)
  qed
qed

text \<open>
  Scenario C: two calls at time 0 on the speck made by \<open>reset\<close>, the first with the
  direct force \<open>(1, 2)\<close> and back force \<open>(3, 4)\<close>, the second with \<open>(5, 6)\<close> and \<open>(7, 8)\<close>.
\<close>

theorem setForce_wave_queue_witness:
  "vx (force (fst (setForceMany [(\<lparr>fx = 1, fy = 2\<rparr>, \<lparr>fx = 3, fy = 4\<rparr>),
                                 (\<lparr>fx = 5, fy = 6\<rparr>, \<lparr>fx = 7, fy = 8\<rparr>)]
                     (speckAt \<lparr>vx = 0, vy = 0, vz = 0\<rparr>) (stillWorld 0 0)))) = 5
   \<and> vy (force (fst (setForceMany [(\<lparr>fx = 1, fy = 2\<rparr>, \<lparr>fx = 3, fy = 4\<rparr>),
                                 (\<lparr>fx = 5, fy = 6\<rparr>, \<lparr>fx = 7, fy = 8\<rparr>)]
                     (speckAt \<lparr>vx = 0, vy = 0, vz = 0\<rparr>) (stillWorld 0 0)))) = 6
   \<and> wave (fst (setForceMany [(\<lparr>fx = 1, fy = 2\<rparr>, \<lparr>fx = 3, fy = 4\<rparr>),
                                 (\<lparr>fx = 5, fy = 6\<rparr>, \<lparr>fx = 7, fy = 8\<rparr>)]
                     (speckAt \<lparr>vx = 0, vy = 0, vz = 0\<rparr>) (stillWorld 0 0)))
       = [\<lparr>time = 450, wpower = \<lparr>fx = 3, fy = 4\<rparr>\<rparr>, \<lparr>time = 450, wpower = \<lparr>fx = 7, fy = 8\<rparr>\<rparr>]"
proof -
  let ?s = "speckAt \<lparr>vx = 0, vy = 0, vz = 0\<rparr>"
  let ?w = "stillWorld 0 0"
  let ?d1 = "\<lparr>fx = 1, fy = 2\<rparr>" and ?b1 = "\<lparr>fx = 3, fy = 4\<rparr>"
  let ?d2 = "\<lparr>fx = 5, fy = 6\<rparr>" and ?b2 = "\<lparr>fx = 7, fy = 8\<rparr>"
  have hyp: "clock ?w 1 = clock ?w 0
      \<and> (\<forall>p \<in> set (tl (wave ?s)). \<not> time p < clock ?w 0 + wavePrecision * 1000)"
    by (simp add: stillWorld_def speckAt_simps)
  have many: "setForceMany [(?d1, ?b1), (?d2, ?b2)] ?s ?w
     = setForce ?d2 ?b2 (fst (setForce ?d1 ?b1 ?s ?w)) (snd (setForce ?d1 ?b1 ?s ?w))"
    by (simp add: split_def Let_def)
  have q1: "wave (fst (setForce ?d1 ?b1 ?s ?w)) = [\<lparr>time = 450, wpower = ?b1\<rparr>]"
    using setForce_fresh_queue [of ?s ?d1 ?b1 ?w]
    by (simp add: speckAt_simps stillWorld_def waveLag_def)
  have c0: "clock ?w 0 = 0" by (simp add: stillWorld_def)
  show ?thesis
    using setForce_wave_queue [of ?w ?s ?b1 ?d1 ?d2 ?b2] hyp
    unfolding many Let_def q1 c0 by (simp add: waveLag_def)
qed
section \<open>Properties of fly\<close>









section \<open>The random source stays in range\<close>

lemma rnd_ok_random: "rnd_ok w \<Longrightarrow> rnd_ok (snd (Math_random w))"
  by (simp add: rnd_ok_def Math_random_def)

lemma rnd_ok_getTime: "rnd_ok w \<Longrightarrow> rnd_ok (snd (getTime w))"
  by (simp add: rnd_ok_def getTime_def)

lemma generate_life:
  "lifeLeft (fst (generate s w)) = rnd w 0 * 2 + 3 \<and> life (fst (generate s w)) = rnd w 0 * 2 + 3
   \<and> position (fst (generate s w)) = position s \<and> color (fst (generate s w)) = color s
   \<and> inertia (fst (generate s w)) = inertia s \<and> wave (fst (generate s w)) = wave s"
  by (simp add: generate_def Math_random_def Let_def maxLife_def minLife_def)

lemma rnd_ok_generate: "rnd_ok w \<Longrightarrow> rnd_ok (snd (generate s w))"
  by (simp add: rnd_ok_def generate_def Math_random_def Let_def)

lemma reset_alive:
  assumes "rnd_ok w"
  shows "\<not> isDead (fst (reset options w))"
    and "lifeLeft (fst (reset options w)) = life (fst (reset options w))"
    and "3 \<le> life (fst (reset options w))" and "life (fst (reset options w)) < 5"
proof -
  have r: "\<And>n. 0 \<le> rnd w n \<and> rnd w n < 1" using assms by (simp add: rnd_ok_def)
  have l: "\<exists>n. lifeLeft (fst (reset options w)) = rnd w n * 2 + 3
            \<and> life (fst (reset options w)) = rnd w n * 2 + 3"
    by (cases "inertia_o options")
       (auto simp: reset_def Let_def split_def generate_life getTime_def Math_random_def)
  then obtain n where n: "lifeLeft (fst (reset options w)) = rnd w n * 2 + 3"
      "life (fst (reset options w)) = rnd w n * 2 + 3" by blast
  from n r [of n] show "\<not> isDead (fst (reset options w))" by (simp add: isDead_def)
  from n show "lifeLeft (fst (reset options w)) = life (fst (reset options w))" by simp
  from n r [of n] show "3 \<le> life (fst (reset options w))" by simp
  from n r [of n] show "life (fst (reset options w)) < 5" by simp
qed

lemma reset_fields:
  "position (fst (reset options w)) = position_o options"
  "color (fst (reset options w)) = (case color_o options of Some c \<Rightarrow> c | None \<Rightarrow> defaultColor)"
  "wave (fst (reset options w)) = []"
  "inertia_o options = Some v \<Longrightarrow> inertia (fst (reset options w)) = v"
  "inertia_o (fst (snd (reset options w))) = None"
  by (cases "inertia_o options";
      simp add: reset_def Let_def split_def generate_life generate_def)+

lemma rnd_ok_reset: "rnd_ok w \<Longrightarrow> rnd_ok (snd (snd (reset options w)))"
  by (cases "inertia_o options")
     (simp_all add: reset_def Let_def split_def rnd_ok_generate rnd_ok_random rnd_ok_getTime)

lemma rnd_ok_generateThrowDirection:
  "rnd_ok w \<Longrightarrow> rnd_ok (snd (generateThrowDirection type c w))"
  by (cases "throw c type")
     (simp_all add: generateThrowDirection_def Let_def split_def rnd_ok_random)

lemma generateThrowDirection_specks [simp]:
  "generateThrowDirection type (c\<lparr>specks := xs\<rparr>) w = generateThrowDirection type c w"
  by (simp add: generateThrowDirection_def)

lemma throwOne_specks [simp]: "throwOne type (c\<lparr>specks := xs\<rparr>) w = throwOne type c w"
  by (simp add: throwOne_def)

lemma rnd_ok_throwOne: "rnd_ok w \<Longrightarrow> rnd_ok (snd (throwOne type c w))"
  by (simp add: throwOne_def split_def Let_def rnd_ok_reset rnd_ok_generateThrowDirection)

lemma throwOne_alive:
  "rnd_ok w \<Longrightarrow> \<not> isDead (fst (throwOne type c w))"
  by (simp add: throwOne_def split_def Let_def reset_alive rnd_ok_generateThrowDirection)

lemma throwOne_unknown:
  "throw c type = None \<Longrightarrow> position (fst (throwOne type c w)) = None"
  by (simp add: throwOne_def split_def reset_fields generateThrowDirection_def Let_def
        emptyOptions_def)

lemma throwOne_known:
  "throw c type = Some params \<Longrightarrow>
     position (fst (throwOne type c w)) \<noteq> None
     \<and> color (fst (throwOne type c w)) = tcolor params
     \<and> vz (inertia (fst (throwOne type c w))) = 0"
  by (cases "from_side params")
     (simp_all add: throwOne_def split_def reset_fields generateThrowDirection_def Let_def)

section \<open>The loop of throwSpecks\<close>

lemma js_get_in_range:
  "0 \<le> k \<Longrightarrow> nat k < length xs \<Longrightarrow> js_get xs k = xs ! nat k"
  by (auto simp: js_get_def)

lemma js_get_out_of_range: "int (length xs) \<le> k \<Longrightarrow> js_get xs k = Undefined"
  by (simp add: js_get_def)

lemma throwLoop_stop: "\<not> real i < num \<Longrightarrow> throwLoop type num i c w = (i, c, w)"
  by (subst throwLoop.simps) simp

lemma throwLoop_full:
  "js_get (specks c) (activeSpecks c + int i) = Undefined \<Longrightarrow>
     throwLoop type num i c w = (i, c, w)"
  by (subst throwLoop.simps) simp

lemma throwLoop_step:
  "real i < num \<Longrightarrow> js_get (specks c) (activeSpecks c + int i) \<noteq> Undefined \<Longrightarrow>
     throwLoop type num i c w
       = throwLoop type num (Suc i)
           (c\<lparr>specks := (specks c)[nat (activeSpecks c + int i) := Live (fst (throwOne type c w))]\<rparr>)
           (snd (throwOne type c w))"
  by (subst throwLoop.simps)
     (cases "js_get (specks c) (activeSpecks c + int i)";
      simp add: throwOne_def split_def Let_def)

text \<open>
  What the loop does to a pool without holes, started at the counter \<open>i\<close> with
  \<open>activeSpecks + i\<close> inside the pool: it returns the counter
  \<open>min \<lceil>num\<rceil> (length - activeSpecks)\<close>, changes nothing but \<open>specks\<close>, keeps the
  length, leaves the slots outside \<open>[activeSpecks + i, activeSpecks + counter)\<close> as
  they are and puts a speck just made by one round into each slot inside.
\<close>

lemma throwLoop_spec:
  assumes "Undefined \<notin> set (specks c)" and "0 \<le> activeSpecks c"
    and "i \<le> nat \<lceil>num\<rceil>" and "nat (activeSpecks c) + i \<le> length (specks c)"
    and "rnd_ok w"
    and "n = nat \<lceil>num\<rceil> - i"
  shows "\<exists>xs w'. throwLoop type num i c w
                   = (min (nat \<lceil>num\<rceil>) (length (specks c) - nat (activeSpecks c)),
                      c\<lparr>specks := xs\<rparr>, w')
           \<and> rnd_ok w'
           \<and> length xs = length (specks c)
           \<and> Undefined \<notin> set xs
           \<and> (\<forall>j. nat (activeSpecks c) + i \<le> j
                   \<and> j < nat (activeSpecks c)
                           + min (nat \<lceil>num\<rceil>) (length (specks c) - nat (activeSpecks c))
                 \<longrightarrow> (\<exists>w0. rnd_ok w0 \<and> xs ! j = Live (fst (throwOne type c w0))))
           \<and> (\<forall>j. j < nat (activeSpecks c) + i
                   \<or> nat (activeSpecks c)
                        + min (nat \<lceil>num\<rceil>) (length (specks c) - nat (activeSpecks c)) \<le> j
                 \<longrightarrow> xs ! j = specks c ! j)"
  using assms
proof (induction n arbitrary: i c w)
  case 0
  then have "\<not> real i < num" by linarith
  then have "throwLoop type num i c w = (i, c, w)" by (rule throwLoop_stop)
  moreover have "i = nat \<lceil>num\<rceil>" using 0 by linarith
  then have "min (nat \<lceil>num\<rceil>) (length (specks c) - nat (activeSpecks c)) = i"
    using "0.prems"(4) by simp
  moreover have "c\<lparr>specks := specks c\<rparr> = c" by simp
  ultimately show ?case using "0.prems"(1,5)
    by (intro exI [of _ "specks c"] exI [of _ w]) auto
next
  case (Suc n)
  let ?a = "nat (activeSpecks c)"
  let ?k = "min (nat \<lceil>num\<rceil>) (length (specks c) - ?a)"
  from Suc.prems have lt: "real i < num" by linarith
  show ?case
  proof (cases "?a + i < length (specks c)")
    case False
    with Suc.prems have eq: "?a + i = length (specks c)" by simp
    then have "js_get (specks c) (activeSpecks c + int i) = Undefined"
      using Suc.prems(2) by (intro js_get_out_of_range) linarith
    then have "throwLoop type num i c w = (i, c, w)" by (rule throwLoop_full)
    moreover have "length (specks c) - ?a = i" using eq by simp
    then have "?k = i" using Suc.prems(3) by (simp only: min_absorb2)
    moreover have "c\<lparr>specks := specks c\<rparr> = c" by simp
    ultimately show ?thesis using Suc.prems(1,5)
      by (intro exI [of _ "specks c"] exI [of _ w]) auto
  next
    case True
    let ?s = "fst (throwOne type c w)"
    let ?w1 = "snd (throwOne type c w)"
    let ?xs1 = "(specks c)[?a + i := Live ?s]"
    let ?c1 = "c\<lparr>specks := ?xs1\<rparr>"
    have idx: "nat (activeSpecks c + int i) = ?a + i" using Suc.prems(2) by simp
    have "js_get (specks c) (activeSpecks c + int i) = specks c ! nat (activeSpecks c + int i)"
      using True Suc.prems(2) by (intro js_get_in_range) linarith+
    then have "js_get (specks c) (activeSpecks c + int i) = specks c ! (?a + i)"
      by (simp only: idx)
    moreover have "specks c ! (?a + i) \<in> set (specks c)" using True by simp
    ultimately have "js_get (specks c) (activeSpecks c + int i) \<noteq> Undefined"
      using Suc.prems(1) by metis
    with lt have step: "throwLoop type num i c w = throwLoop type num (Suc i) ?c1 ?w1"
      using throwLoop_step [of i num c type w] idx by simp
    have p1: "Undefined \<notin> set (specks ?c1)"
      using Suc.prems(1) by (auto dest!: set_update_subset_insert [THEN subsetD])
    have p2: "0 \<le> activeSpecks ?c1" using Suc.prems(2) by simp
    have p3: "Suc i \<le> nat \<lceil>num\<rceil>" using lt by linarith
    have p4: "nat (activeSpecks ?c1) + Suc i \<le> length (specks ?c1)" using True by simp
    have p5: "rnd_ok ?w1" using Suc.prems(5) by (rule rnd_ok_throwOne)
    have p6: "n = nat \<lceil>num\<rceil> - Suc i" using Suc.prems(6) by simp
    have "\<exists>xs w'. throwLoop type num (Suc i) ?c1 ?w1 = (?k, c\<lparr>specks := xs\<rparr>, w')
           \<and> rnd_ok w' \<and> length xs = length (specks c) \<and> Undefined \<notin> set xs
           \<and> (\<forall>j. ?a + Suc i \<le> j \<and> j < ?a + ?k
                 \<longrightarrow> (\<exists>w0. rnd_ok w0 \<and> xs ! j = Live (fst (throwOne type c w0))))
           \<and> (\<forall>j. j < ?a + Suc i \<or> ?a + ?k \<le> j \<longrightarrow> xs ! j = ?xs1 ! j)"
      using Suc.IH [OF p1 p2 p3 p4 p5 p6] by simp
    then obtain xs w' where
      r: "throwLoop type num (Suc i) ?c1 ?w1 = (?k, c\<lparr>specks := xs\<rparr>, w')"
      and ok: "rnd_ok w'" and len: "length xs = length (specks c)"
      and nu: "Undefined \<notin> set xs"
      and el: "\<forall>j. ?a + Suc i \<le> j \<and> j < ?a + ?k
                 \<longrightarrow> (\<exists>w0. rnd_ok w0 \<and> xs ! j = Live (fst (throwOne type c w0)))"
      and fr: "\<forall>j. j < ?a + Suc i \<or> ?a + ?k \<le> j \<longrightarrow> xs ! j = ?xs1 ! j"
      by blast
    have "i < length (specks c) - ?a" using True by simp
    moreover have "i < nat \<lceil>num\<rceil>" using p3 by simp
    ultimately have "i < ?k" by (simp only: min_less_iff_conj)
    then have kk: "?a + i < ?a + ?k" by simp
    have here: "xs ! (?a + i) = Live ?s" using fr True by simp
    have el': "\<forall>j. ?a + i \<le> j \<and> j < ?a + ?k
                 \<longrightarrow> (\<exists>w0. rnd_ok w0 \<and> xs ! j = Live (fst (throwOne type c w0)))"
    proof (intro allI impI)
      fix j assume j: "?a + i \<le> j \<and> j < ?a + ?k"
      show "\<exists>w0. rnd_ok w0 \<and> xs ! j = Live (fst (throwOne type c w0))"
      proof (cases "j = ?a + i")
        case True
        with here Suc.prems(5) show ?thesis by blast
      next
        case False
        with j have "?a + Suc i \<le> j \<and> j < ?a + ?k" by simp
        with el show ?thesis by blast
      qed
    qed
    have fr': "\<forall>j. j < ?a + i \<or> ?a + ?k \<le> j \<longrightarrow> xs ! j = specks c ! j"
    proof (intro allI impI)
      fix j assume j: "j < ?a + i \<or> ?a + ?k \<le> j"
      with kk have ne: "j \<noteq> ?a + i" by auto
      from j have "j < ?a + Suc i \<or> ?a + ?k \<le> j" by auto
      with fr have "xs ! j = ?xs1 ! j" by blast
      with ne show "xs ! j = specks c ! j" by simp
    qed
    from step r ok len nu el' fr' show ?thesis by auto
  qed
qed
section \<open>Properties of throwSpecks\<close>

lemma throwSpecks_spec:
  assumes "Undefined \<notin> set (specks c)" and "0 \<le> activeSpecks c"
    and "nat (activeSpecks c) \<le> length (specks c)" and "rnd_ok w"
  shows "\<exists>xs w'. throwSpecks type rate c w
                   = (c\<lparr>specks := xs,
                        activeSpecks := activeSpecks c
                          + int (min (nat \<lceil>rate * throwRate c\<rceil>)
                                     (length (specks c) - nat (activeSpecks c)))\<rparr>, w')
           \<and> rnd_ok w'
           \<and> length xs = length (specks c)
           \<and> Undefined \<notin> set xs
           \<and> (\<forall>j. nat (activeSpecks c) \<le> j
                   \<and> j < nat (activeSpecks c)
                           + min (nat \<lceil>rate * throwRate c\<rceil>)
                                 (length (specks c) - nat (activeSpecks c))
                 \<longrightarrow> (\<exists>w0. rnd_ok w0 \<and> xs ! j = Live (fst (throwOne type c w0))))
           \<and> (\<forall>j. j < nat (activeSpecks c)
                   \<or> nat (activeSpecks c)
                        + min (nat \<lceil>rate * throwRate c\<rceil>)
                              (length (specks c) - nat (activeSpecks c)) \<le> j
                 \<longrightarrow> xs ! j = specks c ! j)"
proof -
  let ?num = "rate * throwRate c"
  have "\<exists>xs w'. throwLoop type ?num 0 c w
                   = (min (nat \<lceil>?num\<rceil>) (length (specks c) - nat (activeSpecks c)),
                      c\<lparr>specks := xs\<rparr>, w')
           \<and> rnd_ok w' \<and> length xs = length (specks c) \<and> Undefined \<notin> set xs
           \<and> (\<forall>j. nat (activeSpecks c) \<le> j
                   \<and> j < nat (activeSpecks c)
                           + min (nat \<lceil>?num\<rceil>) (length (specks c) - nat (activeSpecks c))
                 \<longrightarrow> (\<exists>w0. rnd_ok w0 \<and> xs ! j = Live (fst (throwOne type c w0))))
           \<and> (\<forall>j. j < nat (activeSpecks c)
                   \<or> nat (activeSpecks c)
                        + min (nat \<lceil>?num\<rceil>) (length (specks c) - nat (activeSpecks c)) \<le> j
                 \<longrightarrow> xs ! j = specks c ! j)"
    using throwLoop_spec [of c 0 ?num w "nat \<lceil>?num\<rceil>" type] assms by simp
  then obtain xs w' where
    r: "throwLoop type ?num 0 c w
          = (min (nat \<lceil>?num\<rceil>) (length (specks c) - nat (activeSpecks c)),
             c\<lparr>specks := xs\<rparr>, w')"
    and rest: "rnd_ok w'" "length xs = length (specks c)" "Undefined \<notin> set xs"
      "\<forall>j. nat (activeSpecks c) \<le> j
             \<and> j < nat (activeSpecks c)
                     + min (nat \<lceil>?num\<rceil>) (length (specks c) - nat (activeSpecks c))
           \<longrightarrow> (\<exists>w0. rnd_ok w0 \<and> xs ! j = Live (fst (throwOne type c w0)))"
      "\<forall>j. j < nat (activeSpecks c)
             \<or> nat (activeSpecks c)
                  + min (nat \<lceil>?num\<rceil>) (length (specks c) - nat (activeSpecks c)) \<le> j
           \<longrightarrow> xs ! j = specks c ! j"
    by blast
  have "throwSpecks type rate c w
          = (c\<lparr>specks := xs,
               activeSpecks := activeSpecks c
                 + int (min (nat \<lceil>?num\<rceil>) (length (specks c) - nat (activeSpecks c)))\<rparr>, w')"
    by (simp add: throwSpecks_def Let_def r)
  with rest show ?thesis by blast
qed

text \<open>The shape of the pool, slot by slot.\<close>

lemma pool_ok_iff:
  "pool_ok c \<longleftrightarrow>
     0 \<le> activeSpecks c \<and> activeSpecks c \<le> int (poolSize c)
     \<and> length (specks c) = poolSize c
     \<and> (\<forall>j < nat (activeSpecks c). alive_slot (specks c ! j))
     \<and> (\<forall>j. nat (activeSpecks c) \<le> j \<and> j < length (specks c) \<longrightarrow> inert_slot (specks c ! j))"
proof -
  have 1: "list_all alive_slot (take (nat (activeSpecks c)) (specks c))
        \<longleftrightarrow> (\<forall>j < nat (activeSpecks c). alive_slot (specks c ! j))"
    if "nat (activeSpecks c) \<le> length (specks c)"
    using that by (simp add: list_all_length min_absorb2)
  have 2: "list_all inert_slot (drop (nat (activeSpecks c)) (specks c))
        \<longleftrightarrow> (\<forall>j. nat (activeSpecks c) \<le> j \<and> j < length (specks c)
                  \<longrightarrow> inert_slot (specks c ! j))"
  proof
    assume l: "list_all inert_slot (drop (nat (activeSpecks c)) (specks c))"
    show "\<forall>j. nat (activeSpecks c) \<le> j \<and> j < length (specks c) \<longrightarrow> inert_slot (specks c ! j)"
    proof (intro allI impI)
      fix j assume j: "nat (activeSpecks c) \<le> j \<and> j < length (specks c)"
      then have "j - nat (activeSpecks c) < length (specks c) - nat (activeSpecks c)"
        by arith
      then have "j - nat (activeSpecks c) < length (drop (nat (activeSpecks c)) (specks c))"
        by simp
      with l have "inert_slot (drop (nat (activeSpecks c)) (specks c) ! (j - nat (activeSpecks c)))"
        by (simp only: list_all_length)
      with j show "inert_slot (specks c ! j)" by simp
    qed
  next
    assume "\<forall>j. nat (activeSpecks c) \<le> j \<and> j < length (specks c) \<longrightarrow> inert_slot (specks c ! j)"
    then show "list_all inert_slot (drop (nat (activeSpecks c)) (specks c))"
      by (simp add: list_all_length)
  qed
  show ?thesis
  proof (cases "0 \<le> activeSpecks c \<and> activeSpecks c \<le> int (poolSize c)
                 \<and> length (specks c) = poolSize c")
    case True
    then have "nat (activeSpecks c) \<le> length (specks c)" by linarith
    from 1 [OF this] 2 True show ?thesis by (simp add: pool_ok_def)
  next
    case False
    then show ?thesis by (auto simp: pool_ok_def)
  qed
qed

lemma pool_ok_no_hole: "pool_ok c \<Longrightarrow> Undefined \<notin> set (specks c)"
proof
  assume ok: "pool_ok c" and "Undefined \<in> set (specks c)"
  then obtain j where j: "j < length (specks c)" "specks c ! j = Undefined"
    by (auto simp: in_set_conv_nth)
  from ok have "alive_slot (specks c ! j) \<or> inert_slot (specks c ! j)"
    using j(1) by (cases "j < nat (activeSpecks c)") (auto simp: pool_ok_iff)
  with j(2) show False by (auto simp: inert_slot_def alive_slot_def)
qed

text \<open>\<open>throwSpecks\<close> keeps the shape of the pool, whatever the group name.\<close>

lemma throwSpecks_pool_ok:
  assumes "pool_ok c" and "rnd_ok w" and "throwSpecks type rate c w = (c', w')"
  shows "pool_ok c'"
proof -
  let ?a = "nat (activeSpecks c)"
  let ?k = "min (nat \<lceil>rate * throwRate c\<rceil>) (length (specks c) - ?a)"
  from assms(1) have a0: "0 \<le> activeSpecks c" and al: "?a \<le> length (specks c)"
    and len: "length (specks c) = poolSize c"
    and pre: "\<forall>j < ?a. alive_slot (specks c ! j)"
    and suf: "\<forall>j. ?a \<le> j \<and> j < length (specks c) \<longrightarrow> inert_slot (specks c ! j)"
    by (auto simp: pool_ok_iff)
  from throwSpecks_spec [OF pool_ok_no_hole [OF assms(1)] a0 al assms(2), of type rate] assms(3)
  obtain xs where
    c': "c' = c\<lparr>specks := xs, activeSpecks := activeSpecks c + int ?k\<rparr>"
    and lx: "length xs = length (specks c)"
    and new: "\<forall>j. ?a \<le> j \<and> j < ?a + ?k
                \<longrightarrow> (\<exists>w0. rnd_ok w0 \<and> xs ! j = Live (fst (throwOne type c w0)))"
    and old: "\<forall>j. j < ?a \<or> ?a + ?k \<le> j \<longrightarrow> xs ! j = specks c ! j"
    by auto
  have na: "nat (activeSpecks c + int ?k) = ?a + ?k" using a0 by linarith
  have k: "?a + ?k \<le> length (specks c)" using al by simp
  have 1: "alive_slot (xs ! j)" if "j < ?a + ?k" for j
  proof (cases "j < ?a")
    case True
    with old pre show ?thesis by simp
  next
    case False
    with that new obtain w0 where "rnd_ok w0" "xs ! j = Live (fst (throwOne type c w0))"
      by (meson not_less)
    with throwOne_alive [of w0 type c] show ?thesis by (simp add: alive_slot_def)
  qed
  have 2: "inert_slot (xs ! j)" if "?a + ?k \<le> j \<and> j < length xs" for j
    using that old suf lx by simp
  have up: "activeSpecks c + int ?k \<le> int (poolSize c)" using a0 k len by linarith
  have lo: "0 \<le> activeSpecks c + int ?k" using a0 by simp
  have pre': "\<forall>j < nat (activeSpecks c + int ?k). alive_slot (xs ! j)"
    unfolding na using 1 by blast
  have suf': "\<forall>j. nat (activeSpecks c + int ?k) \<le> j \<and> j < length xs \<longrightarrow> inert_slot (xs ! j)"
    unfolding na using 2 by blast
  show ?thesis unfolding c' pool_ok_iff using pre' suf' lx len up lo by simp
qed

lemma emptyPool_simps:
  "specks (emptyPool n) = replicate n Blank" "activeSpecks (emptyPool n) = 0"
  "throwRate (emptyPool n) = 1" "throw (emptyPool n) = defaultThrow"
  "poolSize (emptyPool n) = n"
  "breezes (emptyPool n) = [Breeze_initialize Up \<lparr>width = 800, height = 600\<rparr>]"
  by (simp_all add: emptyPool_def)

lemma stillWorld_ok: "rnd_ok (stillWorld (1/2) t)"
  by (simp add: rnd_ok_def stillWorld_def)

text \<open>
  C1, as the specification states it: the number of specks activated is
  \<open>min(floor(I * throwRate), freeSlots)\<close>.  The loop runs while \<open>i < num\<close> for the
  integers \<open>i = 0, 1, ...\<close>, so a fractional \<open>num\<close> is rounded up: on the default cloud
  with one free slot, \<open>throwSpecks('bitBass', 0.5)\<close> activates one speck, and the floor
  is 0.
\<close>

theorem throwSpecks_half_activates_one:
  "activeSpecks (fst (throwSpecks ''bitBass'' (1/2) (emptyPool 1) (stillWorld (1/2) 0)))
     = activeSpecks (emptyPool 1) + 1
   \<and> min (nat \<lfloor>(1/2) * throwRate (emptyPool 1)\<rfloor>)
         (length (specks (emptyPool 1)) - nat (activeSpecks (emptyPool 1))) = 0"
proof -
  have c: "\<lceil>1 / 2 :: real\<rceil> = 1" by (simp add: ceiling_eq_iff)
  have f: "\<lfloor>1 / 2 :: real\<rfloor> = 0" by simp
  have "\<exists>xs w'. throwSpecks ''bitBass'' (1/2) (emptyPool 1) (stillWorld (1/2) 0)
                  = ((emptyPool 1)\<lparr>specks := xs, activeSpecks := 1\<rparr>, w')"
    using throwSpecks_spec [of "emptyPool 1" "stillWorld (1/2) 0" "''bitBass''" "1/2"]
    by (simp add: emptyPool_simps stillWorld_ok c) blast
  then have "activeSpecks (fst (throwSpecks ''bitBass'' (1/2) (emptyPool 1) (stillWorld (1/2) 0)))
     = 1" by auto
  then show ?thesis by (simp add: emptyPool_simps f)
qed

text \<open>
  C1, amended.  Let the pool have its shape (\<open>pool_ok\<close>), so that
  \<open>poolSize - activeSpecks\<close> slots are free, and let the random source be in range.
  For a group name with an entry in the throw table, \<open>throwSpecks(g, I)\<close> activates
  exactly \<open>k = min(\<lceil>I * throwRate\<rceil>, free slots)\<close> specks (the ceiling, and none when
  the product is not positive): \<open>activeSpecks\<close> grows by \<open>k\<close>, each of the \<open>k\<close> slots from
  the old \<open>activeSpecks\<close> on holds a speck that is alive, has a position and the
  table's colour, every other slot is as before, and the pool keeps its shape.
\<close>

theorem throwSpecks_activates:
  assumes "throw c g = Some params" and "pool_ok c" and "rnd_ok w"
    and "k = min (nat \<lceil>I * throwRate c\<rceil>) (poolSize c - nat (activeSpecks c))"
  shows "activeSpecks (fst (throwSpecks g I c w)) = activeSpecks c + int k
       \<and> pool_ok (fst (throwSpecks g I c w))
       \<and> (\<forall>j. nat (activeSpecks c) \<le> j \<and> j < nat (activeSpecks c) + k
             \<longrightarrow> (\<exists>s. specks (fst (throwSpecks g I c w)) ! j = Live s \<and> \<not> isDead s
                       \<and> position s \<noteq> None \<and> color s = tcolor params))
       \<and> (\<forall>j. j < nat (activeSpecks c) \<or> nat (activeSpecks c) + k \<le> j
             \<longrightarrow> specks (fst (throwSpecks g I c w)) ! j = specks c ! j)"
proof -
  from assms(2) have a0: "0 \<le> activeSpecks c" and al: "nat (activeSpecks c) \<le> length (specks c)"
    and len: "length (specks c) = poolSize c"
    by (auto simp: pool_ok_iff)
  from throwSpecks_spec [OF pool_ok_no_hole [OF assms(2)] a0 al assms(3), of g I] assms(4) len
  obtain xs w' where
    r: "throwSpecks g I c w = (c\<lparr>specks := xs, activeSpecks := activeSpecks c + int k\<rparr>, w')"
    and new: "\<forall>j. nat (activeSpecks c) \<le> j \<and> j < nat (activeSpecks c) + k
                \<longrightarrow> (\<exists>w0. rnd_ok w0 \<and> xs ! j = Live (fst (throwOne g c w0)))"
    and old: "\<forall>j. j < nat (activeSpecks c) \<or> nat (activeSpecks c) + k \<le> j
                \<longrightarrow> xs ! j = specks c ! j"
    by auto
  have "\<exists>s. xs ! j = Live s \<and> \<not> isDead s \<and> position s \<noteq> None \<and> color s = tcolor params"
    if "nat (activeSpecks c) \<le> j \<and> j < nat (activeSpecks c) + k" for j
  proof -
    from new that obtain w0 where "rnd_ok w0" "xs ! j = Live (fst (throwOne g c w0))" by blast
    then show ?thesis
      using throwOne_alive [of w0 g c] throwOne_known [OF assms(1), of w0] by simp
  qed
  moreover have "throwSpecks g I c w = (fst (throwSpecks g I c w), snd (throwSpecks g I c w))"
    by simp
  with assms(2,3) have "pool_ok (fst (throwSpecks g I c w))" by (rule throwSpecks_pool_ok)
  ultimately show ?thesis using r old by simp
qed

lemma emptyPool_ok: "pool_ok (emptyPool n)"
  by (simp add: pool_ok_def emptyPool_def list_all_length inert_slot_def)

theorem throwSpecks_activates_witness:
  "activeSpecks (fst (throwSpecks ''middleLow'' (5/2) (emptyPool 2) (stillWorld (1/2) 0))) = 2
   \<and> pool_ok (fst (throwSpecks ''middleLow'' (5/2) (emptyPool 2) (stillWorld (1/2) 0)))
   \<and> (\<exists>s. specks (fst (throwSpecks ''middleLow'' (5/2) (emptyPool 2) (stillWorld (1/2) 0))) ! 1
            = Live s \<and> \<not> isDead s \<and> position s \<noteq> None \<and> color s = ''#ffa11b'')"
proof -
  let ?c = "emptyPool 2" and ?w = "stillWorld (1/2) 0"
  let ?p = "\<lparr>tcolor = ''#ffa11b'', inertiaFactor = 0.5, from_side = LowSides\<rparr>"
  have h1: "throw ?c ''middleLow'' = Some ?p"
    by (simp add: emptyPool_simps defaultThrow_def)
  have c: "\<lceil>5 / 2 :: real\<rceil> = 3" by (simp add: ceiling_eq_iff)
  have h4: "2 = min (nat \<lceil>(5/2) * throwRate ?c\<rceil>) (poolSize ?c - nat (activeSpecks ?c))"
    by (simp add: emptyPool_simps c)
  note t = throwSpecks_activates [OF h1 emptyPool_ok stillWorld_ok h4]
  from t have a: "activeSpecks (fst (throwSpecks ''middleLow'' (5/2) ?c ?w)) = 2"
    and ok: "pool_ok (fst (throwSpecks ''middleLow'' (5/2) ?c ?w))"
    by (simp_all add: emptyPool_simps)
  from t have "\<forall>j. nat (activeSpecks ?c) \<le> j \<and> j < nat (activeSpecks ?c) + 2
             \<longrightarrow> (\<exists>s. specks (fst (throwSpecks ''middleLow'' (5/2) ?c ?w)) ! j = Live s
                       \<and> \<not> isDead s \<and> position s \<noteq> None \<and> color s = tcolor ?p)"
    by blast
  then have "\<exists>s. specks (fst (throwSpecks ''middleLow'' (5/2) ?c ?w)) ! 1 = Live s
                       \<and> \<not> isDead s \<and> position s \<noteq> None \<and> color s = tcolor ?p"
    by (simp add: emptyPool_simps)
  with a ok show ?thesis by simp
qed

section \<open>An unknown group name\<close>

lemma Breeze_apply_no_position:
  "position s = None \<Longrightarrow> Breeze_apply b s w = Inl TypeError"
  by (cases "btype b")
     (simp_all add: Breeze_apply_def findDistance_def split_def Let_def)

lemma animateLoop_no_position:
  assumes "0 < activeSpecks c" and "specks c \<noteq> []" and "specks c ! 0 = Live s"
    and "position s = None" and "breezes c \<noteq> []"
  shows "animateLoop dt 0 c w = Inl TypeError"
proof -
  from assms(5) obtain b bs where b: "breezes c = b # bs" by (cases "breezes c") auto
  have g: "js_get (specks c) (int 0) = Live s"
    using assms(2,3) by (simp add: js_get_def)
  have "applyBreezes (breezes c) s w = Inl TypeError"
    using b Breeze_apply_no_position [OF assms(4)] by simp
  with assms(1) g show ?thesis by (subst animateLoop.simps) simp
qed

text \<open>
  C5 at the failing input: on the default cloud with a pool of two never-used specks,
  \<open>throwSpecks('nosuch', 1)\<close> for a name that is not in the throw table raises
  \<open>activeSpecks\<close> from 0 to 1 and resets the first speck of the pool with the empty
  options: the speck is alive and has no position.  The next pass of \<open>_animate\<close>
  ends in a TypeError.
\<close>

theorem throwSpecks_unknown_group_activates:
  "throw (emptyPool 2) ''nosuch'' = None
   \<and> activeSpecks (emptyPool 2) = 0
   \<and> activeSpecks (fst (throwSpecks ''nosuch'' 1 (emptyPool 2) (stillWorld (1/2) 0))) = 1
   \<and> (\<exists>s. specks (fst (throwSpecks ''nosuch'' 1 (emptyPool 2) (stillWorld (1/2) 0))) ! 0 = Live s
          \<and> \<not> isDead s \<and> position s = None)
   \<and> specks (emptyPool 2) ! 0 = Blank
   \<and> animate (1/60) (fst (throwSpecks ''nosuch'' 1 (emptyPool 2) (stillWorld (1/2) 0)))
         (snd (throwSpecks ''nosuch'' 1 (emptyPool 2) (stillWorld (1/2) 0))) = Inl TypeError"
proof -
  let ?c = "emptyPool 2" and ?w = "stillWorld (1/2) 0"
  have u: "throw ?c ''nosuch'' = None" by (simp add: emptyPool_simps defaultThrow_def)
  have "\<exists>xs w'. throwSpecks ''nosuch'' 1 ?c ?w = (?c\<lparr>specks := xs, activeSpecks := 1\<rparr>, w')
            \<and> length xs = 2
            \<and> (\<forall>j. j < 1 \<longrightarrow> (\<exists>w0. rnd_ok w0 \<and> xs ! j = Live (fst (throwOne ''nosuch'' ?c w0))))"
    using throwSpecks_spec [of ?c ?w "''nosuch''" 1]
    by (simp add: emptyPool_simps stillWorld_ok) blast
  then obtain xs w' w0 where
    r: "throwSpecks ''nosuch'' 1 ?c ?w = (?c\<lparr>specks := xs, activeSpecks := 1\<rparr>, w')"
    and len: "length xs = 2"
    and ok: "rnd_ok w0" and x0: "xs ! 0 = Live (fst (throwOne ''nosuch'' ?c w0))"
    by auto
  let ?s = "fst (throwOne ''nosuch'' ?c w0)"
  have pos: "position ?s = None" using u by (rule throwOne_unknown)
  have alive: "\<not> isDead ?s" using ok by (rule throwOne_alive)
  have ne: "xs \<noteq> []" using len by auto
  have "maxLag ?c = 3/100" by (simp add: emptyPool_def)
  then have shed: "shedLoad (1/60) (?c\<lparr>specks := xs, activeSpecks := 1\<rparr>)
                     = ?c\<lparr>specks := xs, activeSpecks := 1\<rparr>"
    by (simp add: shedLoad_def)
  have "animateLoop (1/60) 0 (?c\<lparr>specks := xs, activeSpecks := 1\<rparr>) w' = Inl TypeError"
    by (rule animateLoop_no_position [where s = ?s])
       (simp_all add: ne x0 pos emptyPool_simps)
  then have crash: "animate (1/60) (?c\<lparr>specks := xs, activeSpecks := 1\<rparr>) w' = Inl TypeError"
    by (simp only: animate_def shed)
  from u r x0 pos alive crash show ?thesis by (simp add: emptyPool_simps)
qed
section \<open>Load shedding\<close>

lemma shortenLife_idem: "shortenLife (shortenLife s) = shortenLife s"
  by (simp add: shortenLife_def flashTime_def)

lemma deleteLoop_stop: "\<not> real i < num \<Longrightarrow> deleteLoop num i xs = xs"
  by (subst deleteLoop.simps) simp

lemma deleteLoop_Undefined: "js_get_num xs num = Undefined \<Longrightarrow> deleteLoop num i xs = xs"
  by (subst deleteLoop.simps) simp


lemma js_get_num_update:
  "js_get_num xs num = Live s \<Longrightarrow> js_get_num (xs[nat \<lfloor>num\<rfloor> := v]) num = v"
  by (auto simp: js_get_num_def js_get_def split: if_splits)

text \<open>
  The whole of \<open>_deleteSpecks(num)\<close>: when the loop runs at all and \<open>this.specks[num]\<close>
  is a speck that has been reset, that one speck has its life shortened; no other
  element of the pool changes.
\<close>

lemma deleteLoop_Live:
  assumes "js_get_num xs num = Live s" and "real i < num" and "n = nat \<lceil>num\<rceil> - i"
  shows "deleteLoop num i xs = xs[nat \<lfloor>num\<rfloor> := Live (shortenLife s)]"
  using assms
proof (induction n arbitrary: i xs s)
  case 0
  then show ?case by linarith
next
  case (Suc n)
  let ?xs1 = "xs[nat \<lfloor>num\<rfloor> := Live (shortenLife s)]"
  have step: "deleteLoop num i xs = deleteLoop num (Suc i) ?xs1"
    using Suc.prems(1,2) by (subst deleteLoop.simps) simp
  have g1: "js_get_num ?xs1 num = Live (shortenLife s)"
    using Suc.prems(1) by (rule js_get_num_update)
  show ?case
  proof (cases "real (Suc i) < num")
    case False
    then have "deleteLoop num (Suc i) ?xs1 = ?xs1" by (rule deleteLoop_stop)
    with step show ?thesis by simp
  next
    case True
    have "n = nat \<lceil>num\<rceil> - Suc i" using Suc.prems(3) by simp
    from Suc.IH [OF g1 True this] step show ?thesis by (simp add: shortenLife_idem)
  qed
qed

lemma deleteLoop_spec:
  "deleteLoop num 0 xs
     = (case js_get_num xs num of
          Live s \<Rightarrow> if 0 < num then xs[nat \<lfloor>num\<rfloor> := Live (shortenLife s)] else xs
        | _ \<Rightarrow> xs)"
proof (cases "js_get_num xs num")
  case Undefined
  then show ?thesis by (simp add: deleteLoop_Undefined)
next
  case Blank
  have "deleteLoop num i xs = xs" if "n = nat \<lceil>num\<rceil> - i" for i n
    using that
  proof (induction n arbitrary: i)
    case 0
    then have "\<not> real i < num" by linarith
    then show ?case by (rule deleteLoop_stop)
  next
    case (Suc n)
    then have "n = nat \<lceil>num\<rceil> - Suc i" by simp
    from Suc.IH [OF this] Blank show ?case by (subst deleteLoop.simps) simp
  qed
  with Blank show ?thesis by simp
next
  case (Live s)
  show ?thesis
  proof (cases "0 < num")
    case True
    then have "real 0 < num" by simp
    from deleteLoop_Live [OF Live this refl] Live True show ?thesis by simp
  next
    case False
    then have "\<not> real 0 < num" by simp
    then have "deleteLoop num 0 xs = xs" by (rule deleteLoop_stop)
    with Live False show ?thesis by simp
  qed
qed

lemma crowdedPool_simps:
  "specks (crowdedPool n) = replicate n (Live (speckAt \<lparr>vx = 0, vy = 0, vz = 0\<rparr>))"
  "activeSpecks (crowdedPool n) = int n"
  "maxLag (crowdedPool n) = 3/100" "maxToDelete (crowdedPool n) = 5/100"
  by (simp_all add: crowdedPool_def emptyPool_def)

text \<open>
  C3 at the failing input: 1000 active specks, each with 4 seconds to live,
  \<open>maxLag = 0.03\<close>, \<open>maxToDelete = 0.05\<close> and a measured \<open>dt\<close> of 0.06.  The number passed
  to \<open>_deleteSpecks\<close> is 50.  The pool after load shedding differs from the pool
  before in the single element at index 50, whose life is cut to the flash time; the
  specks at indexes 0 to 49, at the front of the active range, are as they were.
\<close>

theorem shedLoad_shortens_one_speck:
  "numToDelete (6/100) (crowdedPool 1000) = 50
   \<and> specks (shedLoad (6/100) (crowdedPool 1000))
       = (specks (crowdedPool 1000))
           [50 := Live (speckAt \<lparr>vx = 0, vy = 0, vz = 0\<rparr>\<lparr>lifeLeft := flashTime\<rparr>)]
   \<and> take 50 (specks (shedLoad (6/100) (crowdedPool 1000)))
       = take 50 (specks (crowdedPool 1000))
   \<and> lifeLeft (speckAt \<lparr>vx = 0, vy = 0, vz = 0\<rparr>) = 4
   \<and> flashTime < 4"
proof -
  let ?c = "crowdedPool 1000"
  let ?s = "speckAt \<lparr>vx = 0, vy = 0, vz = 0\<rparr>"
  have n: "numToDelete (6/100) ?c = 50"
    by (simp add: numToDelete_def crowdedPool_simps Let_def)
  have g: "js_get_num (specks ?c) 50 = Live ?s"
    by (simp add: js_get_num_def js_get_def crowdedPool_simps)
  have sh: "shortenLife ?s = ?s\<lparr>lifeLeft := flashTime\<rparr>"
    by (simp add: shortenLife_def speckAt_simps flashTime_def)
  have dl: "deleteLoop 50 0 (specks ?c) = (specks ?c)[50 := Live (shortenLife ?s)]"
    by (simp add: deleteLoop_spec g)
  have s1: "shedLoad (6/100) ?c = deleteSpecks (numToDelete (6/100) ?c) ?c"
    by (simp add: shedLoad_def crowdedPool_simps)
  have d: "specks (shedLoad (6/100) ?c) = (specks ?c)[50 := Live (?s\<lparr>lifeLeft := flashTime\<rparr>)]"
    unfolding s1 n deleteSpecks_def using dl sh by simp
  have t: "take 50 (specks (shedLoad (6/100) ?c)) = take 50 (specks ?c)"
    by (simp only: d take_update_cancel order_refl)
  from n d t show ?thesis by (simp add: speckAt_simps flashTime_def)
qed
section \<open>The loop of _animate\<close>

















section \<open>Load shedding keeps the shape of the pool\<close>









section \<open>No dead speck in the active range after a pass\<close>



section \<open>The shape of the pool is invariant\<close>

subsection \<open>fill\<close>







subsection \<open>_animate\<close>



subsection \<open>The music handlers\<close>






section \<open>reset and the caller's options object\<close>

text \<open>
  The store model shows the speck that \<open>reset\<close> on values makes, as long as every
  reference of the options object is an address in use.
\<close>

lemma vec3_eta: "\<lparr>vx = vx u, vy = vy u, vz = vz u\<rparr> = u"
  by (cases u) simp

lemma resetRef_shows_reset:
  assumes "\<forall>a. position_r opts = Some a \<longrightarrow> a < next_free h"
  shows "shown (fst (resetRef opts h w)) = fst (reset (optionsOf h opts) w)"
    and "snd (snd (snd (resetRef opts h w))) = snd (snd (reset (optionsOf h opts) w))"
proof -
  have p: "map_option ((cells h)(next_free h := v)) (position_r opts)
             = map_option (cells h) (position_r opts)" for v
    using assms by (cases "position_r opts") auto
  show "shown (fst (resetRef opts h w)) = fst (reset (optionsOf h opts) w)"
    by (cases "inertia_r opts")
       (simp_all add: resetRef_def reset_def optionsOf_def extend_new_def alloc_def
          split_def Let_def p vec3_eta)
  show "snd (snd (snd (resetRef opts h w))) = snd (snd (reset (optionsOf h opts) w))"
    by (cases "inertia_r opts")
       (simp_all add: resetRef_def reset_def optionsOf_def extend_new_def alloc_def
          split_def Let_def p vec3_eta)
qed

text \<open>
  C10.  Let the options object carry an inertia, the vector object at address \<open>a\<close>.
  After \<open>reset\<close> the options object has no \<open>inertia\<close> property any more and keeps its
  other properties.  The speck's inertia is a new object: its address was free
  before the call, so it is not \<open>a\<close>; it holds the x, y and z of the supplied vector;
  the supplied vector is unchanged, and stays so when the speck's inertia is
  written afterwards.  By value, the speck has the supplied inertia.
\<close>

theorem reset_deletes_and_copies_inertia:
  assumes "inertia_r opts = Some a" and "a < next_free h"
    and "resetRef opts h w = (sr, opts', h', w')"
  shows "inertia_r opts' = None
       \<and> position_r opts' = position_r opts \<and> color_r opts' = color_r opts
       \<and> inertia_at sr = next_free h \<and> inertia_at sr \<noteq> a
       \<and> inertia_at sr < next_free h'
       \<and> vx (cells h' (inertia_at sr)) = vx (cells h a)
       \<and> vy (cells h' (inertia_at sr)) = vy (cells h a)
       \<and> vz (cells h' (inertia_at sr)) = vz (cells h a)
       \<and> cells h' a = cells h a
       \<and> ((cells h')(inertia_at sr := v)) a = cells h a
       \<and> inertia (shown sr) = cells h a"
  using assms
  by (auto simp: resetRef_def extend_new_def alloc_def split_def Let_def generate_life vec3_eta)

theorem reset_deletes_and_copies_inertia_witness:
  "inertia_r (fst (snd (resetRef \<lparr>position_r = None, inertia_r = Some 0, color_r = None\<rparr>
                          oneVector (stillWorld (1/2) 0)))) = None
   \<and> inertia_at (fst (resetRef \<lparr>position_r = None, inertia_r = Some 0, color_r = None\<rparr>
                          oneVector (stillWorld (1/2) 0))) = 1
   \<and> cells (fst (snd (snd (resetRef \<lparr>position_r = None, inertia_r = Some 0, color_r = None\<rparr>
                          oneVector (stillWorld (1/2) 0))))) 1 = \<lparr>vx = 1, vy = 2, vz = 3\<rparr>
   \<and> cells (fst (snd (snd (resetRef \<lparr>position_r = None, inertia_r = Some 0, color_r = None\<rparr>
                          oneVector (stillWorld (1/2) 0))))) 0 = \<lparr>vx = 1, vy = 2, vz = 3\<rparr>
   \<and> inertia (shown (fst (resetRef \<lparr>position_r = None, inertia_r = Some 0, color_r = None\<rparr>
                          oneVector (stillWorld (1/2) 0)))) = \<lparr>vx = 1, vy = 2, vz = 3\<rparr>"
proof -
  let ?o = "\<lparr>position_r = None, inertia_r = Some 0, color_r = None\<rparr>"
  let ?r = "resetRef ?o oneVector (stillWorld (1/2) 0)"
  have h1: "inertia_r ?o = Some 0" by simp
  have h2: "0 < next_free oneVector" by (simp add: oneVector_def)
  have h3: "?r = (fst ?r, fst (snd ?r), fst (snd (snd ?r)), snd (snd (snd ?r)))" by simp
  have c: "cells oneVector 0 = \<lparr>vx = 1, vy = 2, vz = 3\<rparr>" "next_free oneVector = 1"
    by (simp_all add: oneVector_def)
  note t = reset_deletes_and_copies_inertia
             [OF h1 h2 h3, of "\<lparr>vx = 0, vy = 0, vz = 0\<rparr>", unfolded c]
  from t have d: "inertia_r (fst (snd ?r)) = None" and at: "inertia_at (fst ?r) = 1"
    and old: "cells (fst (snd (snd ?r))) 0 = \<lparr>vx = 1, vy = 2, vz = 3\<rparr>"
    and val: "inertia (shown (fst ?r)) = \<lparr>vx = 1, vy = 2, vz = 3\<rparr>"
    by simp_all
  from t have "vx (cells (fst (snd (snd ?r))) (inertia_at (fst ?r))) = vx \<lparr>vx = 1, vy = 2, vz = 3\<rparr>"
    and "vy (cells (fst (snd (snd ?r))) (inertia_at (fst ?r))) = vy \<lparr>vx = 1, vy = 2, vz = 3\<rparr>"
    and "vz (cells (fst (snd (snd ?r))) (inertia_at (fst ?r))) = vz \<lparr>vx = 1, vy = 2, vz = 3\<rparr>"
    by blast+
  then have "cells (fst (snd (snd ?r))) (inertia_at (fst ?r)) = \<lparr>vx = 1, vy = 2, vz = 3\<rparr>"
    by (cases "cells (fst (snd (snd ?r))) (inertia_at (fst ?r))") simp
  then have new: "cells (fst (snd (snd ?r))) 1 = \<lparr>vx = 1, vy = 2, vz = 3\<rparr>"
    by (simp only: at)
  from d at new old val show ?thesis by simp
qed

end
